theory Spec2Isabelle
  imports Complex_Main
begin

section \<open>The update relay of the grid application\<close>

text \<open>
  The development embeds the WebSocket servers of the repository:
  \<^item> \<^verbatim>\<open>websocket-server/server.js\<close> in its persisting form (connection registry, the
    \<^verbatim>\<open>message\<close> handler that saves a cell through \<^verbatim>\<open>db.js\<close> and broadcasts it, the
    \<^verbatim>\<open>SIGINT\<close> handler);
  \<^item> the timer-driven generator of \<^verbatim>\<open>scripts/websocket-server.js\<close> and of the earlier form
    of \<^verbatim>\<open>websocket-server/server.js\<close> (the two \<^verbatim>\<open>setInterval\<close> bodies are the same text);
  \<^item> \<^verbatim>\<open>updateCell\<close>, \<^verbatim>\<open>connectToDatabase\<close> and \<^verbatim>\<open>closeConnection\<close> of
    \<^verbatim>\<open>websocket-server/db.js\<close>.

  The \<^verbatim>\<open>ws\<close> library, the MongoDB driver, the clock and \<^verbatim>\<open>Math.random\<close> are outside
  the repository. \<^verbatim>\<open>send\<close> and \<^verbatim>\<open>close\<close> of a socket follow \<^verbatim>\<open>ws/lib/websocket.js\<close> and
  \<^verbatim>\<open>ws/lib/sender.js\<close>; the store records whether it answers; the handlers take the
  clock reading and the random draws as arguments. An \<^verbatim>\<open>async\<close> function is split at
  each \<^verbatim>\<open>await\<close> on the store: the part before runs when the function is called, the
  part after when the store answers.
\<close>

subsection \<open>JavaScript values and strings\<close>

text \<open>
  A value as \<^verbatim>\<open>JSON.parse\<close> returns it, with \<^verbatim>\<open>undefined\<close> for an absent property.
  A number is a double: \<open>JNum\<close> holds the exact value of a finite one, and a literal
  beyond the range parses to an infinity. An object is the list of its own properties
  (each key once).
\<close>

datatype jsval =
    Undefined
  | JNull
  | JBool bool
  | JNum rat
  | JInfinity
  | JNegInfinity
  | JStr string
  | JArr "jsval list"
  | JObj "(string \<times> jsval) list"

text \<open>
  Reading \<^verbatim>\<open>v.key\<close> for one of the keys the handler reads (\<^verbatim>\<open>type\<close>, \<^verbatim>\<open>rowId\<close>,
  \<^verbatim>\<open>columnId\<close>, \<^verbatim>\<open>newValue\<close>): a \<^verbatim>\<open>TypeError\<close> (\<open>None\<close>) on \<^verbatim>\<open>null\<close> and
  \<^verbatim>\<open>undefined\<close>, \<^verbatim>\<open>undefined\<close> on a primitive, an array or an object without the key.
\<close>

fun get_prop :: "jsval \<Rightarrow> string \<Rightarrow> jsval option" where
  "get_prop Undefined k = None"
| "get_prop JNull k = None"
| "get_prop (JObj ms) k = Some (case map_of ms k of None \<Rightarrow> Undefined | Some v \<Rightarrow> v)"
| "get_prop v k = Some Undefined"

text \<open>The destructuring \<^verbatim>\<open>const { rowId, columnId, newValue } = message\<close>.\<close>

definition destructure :: "jsval \<Rightarrow> string \<Rightarrow> jsval" where
  "destructure message k = (case get_prop message k of None \<Rightarrow> Undefined | Some v \<Rightarrow> v)"

text \<open>
  The value that the text printed by \<^verbatim>\<open>JSON.stringify\<close> denotes: an infinity is printed
  as \<^verbatim>\<open>null\<close>, an \<^verbatim>\<open>undefined\<close> array element as \<^verbatim>\<open>null\<close>, an \<^verbatim>\<open>undefined\<close> member is
  left out, and \<^verbatim>\<open>undefined\<close> itself has no text.
\<close>

primrec json_text :: "jsval \<Rightarrow> jsval" where
  "json_text Undefined = Undefined"
| "json_text JNull = JNull"
| "json_text (JBool b) = JBool b"
| "json_text (JNum x) = JNum x"
| "json_text JInfinity = JNull"
| "json_text JNegInfinity = JNull"
| "json_text (JStr t) = JStr t"
| "json_text (JArr xs) =
     JArr (map (\<lambda>x. if x = Undefined then JNull else x) (map json_text xs))"
| "json_text (JObj ms) =
     JObj (filter (\<lambda>kv. snd kv \<noteq> Undefined) (map (map_prod id json_text) ms))"

text \<open>
  The text \<^verbatim>\<open>JSON.stringify\<close> prints for an object literal is represented by the members
  it prints, in order, each with the value its text denotes.
\<close>

type_synonym frame = "(string \<times> jsval) list"

definition JSON_stringify :: "(string \<times> jsval) list \<Rightarrow> frame" where
  "JSON_stringify ms =
     filter (\<lambda>kv. snd kv \<noteq> Undefined) (map (map_prod id json_text) ms)"

definition digit_char :: "nat \<Rightarrow> char" where
  "digit_char d = char_of (48 + d)"

text \<open>A non-negative integer inside a template literal.\<close>

fun show_nat :: "nat \<Rightarrow> string" where
  "show_nat n =
     (if n < 10 then [digit_char n] else show_nat (n div 10) @ [digit_char (n mod 10)])"

declare show_nat.simps [simp del]

text \<open>\<^verbatim>\<open>String.prototype.includes\<close>.\<close>

fun includes_str :: "string \<Rightarrow> string \<Rightarrow> bool" where
  "includes_str [] p = (p = [])"
| "includes_str (c # cs) p = (take (length p) (c # cs) = p \<or> includes_str cs p)"

text \<open>
  The double nearest to a rational, ties to the even mantissa: the result of a
  floating-point product, given the exact product. \<open>bitlen\<close> counts binary digits; the
  mantissa has 53 of them. Subnormal and overflowing magnitudes do not arise from the
  products of this code and are not treated.
\<close>

function bitlen :: "int \<Rightarrow> nat" where
  "bitlen n = (if n \<le> 0 then 0 else Suc (bitlen (n div 2)))"
  by pat_completeness auto
termination
  by (relation "measure nat") auto

declare bitlen.simps [simp del]

definition pow2 :: "int \<Rightarrow> rat" where
  "pow2 e = (if 0 \<le> e then 2 ^ nat e else 1 / 2 ^ nat (- e))"

definition round_half_even :: "rat \<Rightarrow> int" where
  "round_half_even y =
     (let f = \<lfloor>y\<rfloor>; d = y - of_int f
      in if d < 1 / 2 then f else if 1 / 2 < d then f + 1 else if even f then f else f + 1)"

definition fl_pos :: "rat \<Rightarrow> rat" where
  "fl_pos x =
     (case quotient_of x of
        (p, q) \<Rightarrow>
          (let E = int (bitlen p) - int (bitlen q);
               e = (if x < pow2 E then E - 1 else E) - 52
           in of_int (round_half_even (x / pow2 e)) * pow2 e))"

definition fl :: "rat \<Rightarrow> rat" where
  "fl x = (if x = 0 then 0 else if 0 < x then fl_pos x else - fl_pos (- x))"

text \<open>
  \<^verbatim>\<open>x.toFixed(2)\<close> for a double \<open>x \<ge> 0\<close> below \<open>10\<^sup>2\<^sup>1\<close>: the digits of the integer \<open>n\<close>
  with \<open>n / 100\<close> nearest to \<open>x\<close>, the larger \<open>n\<close> on a tie.
\<close>

definition toFixed2 :: "rat \<Rightarrow> string" where
  "toFixed2 x =
     (let n = nat \<lfloor>x * 100 + 1 / 2\<rfloor>
      in show_nat (n div 100) @ ''.'' @ [digit_char ((n div 10) mod 10), digit_char (n mod 10)])"

text \<open>An array read \<^verbatim>\<open>xs[i]\<close>: \<^verbatim>\<open>undefined\<close> (\<open>None\<close>) out of range.\<close>

definition at_index :: "'a list \<Rightarrow> int \<Rightarrow> 'a option" where
  "at_index xs i = (if 0 \<le> i \<and> i < int (length xs) then Some (xs ! nat i) else None)"

subsection \<open>The updateable columns\<close>

definition base_columns :: "string list" where
  "base_columns =
     [''revenue'', ''expenses'', ''profit'', ''employees'',
      ''status'', ''verified'', ''premium'', ''subscription_tier'',
      ''total_score'', ''risk_factor'', ''satisfaction_score'',
      ''engagement_rate'', ''conversion_rate'']"

text \<open>The loop \<^verbatim>\<open>for (let i = 1; i <= 20; i++)\<close> with its four \<^verbatim>\<open>push\<close> calls.\<close>

function push_metrics :: "nat \<Rightarrow> string list \<Rightarrow> string list" where
  "push_metrics i cols =
     (if i \<le> 20
      then push_metrics (i + 1)
             (cols @ [''performance_metric_'' @ show_nat i] @ [''sales_metric_'' @ show_nat i]
                   @ [''behavior_metric_'' @ show_nat i] @ [''kpi_'' @ show_nat i])
      else cols)"
  by pat_completeness auto
termination
  by (relation "measure (\<lambda>(i, cols). 21 - i)") auto

declare push_metrics.simps [simp del]

definition updateableColumns :: "string list" where
  "updateableColumns = push_metrics 1 base_columns"

text \<open>
  The set the interface description names: thirteen base columns and four families
  numbered 1 to 20.
\<close>

definition numbered :: "string \<Rightarrow> string set" where
  "numbered family = (\<lambda>N. family @ ''_'' @ show_nat N) ` {1..20}"

definition recognized_columns :: "string set" where
  "recognized_columns =
     {''revenue'', ''expenses'', ''profit'', ''employees'', ''status'', ''verified'',
      ''premium'', ''subscription_tier'', ''total_score'', ''risk_factor'',
      ''satisfaction_score'', ''engagement_rate'', ''conversion_rate''}
     \<union> numbered ''performance_metric'' \<union> numbered ''sales_metric''
     \<union> numbered ''behavior_metric'' \<union> numbered ''kpi''"

subsection \<open>Sockets and the registry\<close>

datatype ready_state = CONNECTING | OPEN | CLOSING | CLOSED

text \<open>
  A \<^verbatim>\<open>ws\<close> socket object. \<open>sent\<close> holds the texts that \<^verbatim>\<open>send\<close> handed to the socket's
  sender, oldest first.
\<close>

record socket =
  readyState :: ready_state
  sent :: "frame list"

datatype completion = Normal | Raised

text \<open>
  \<^verbatim>\<open>WebSocket.prototype.send(data)\<close> of the library, called without a callback: it
  throws while the socket is connecting (\<open>None\<close>), hands the text to the sender when the
  socket is open, and otherwise only counts the bytes. A write that fails later does
  not make the call throw: the library closes the socket, and its \<^verbatim>\<open>close\<close> or \<^verbatim>\<open>error\<close>
  event follows.
\<close>

definition ws_send :: "frame \<Rightarrow> socket \<Rightarrow> socket option" where
  "ws_send m sock =
     (case readyState sock of
        CONNECTING \<Rightarrow> None
      | OPEN \<Rightarrow> Some (sock\<lparr>sent := sent sock @ [m]\<rparr>)
      | CLOSING \<Rightarrow> Some sock
      | CLOSED \<Rightarrow> Some sock)"

text \<open>\<^verbatim>\<open>isValidStatusCode\<close> of \<^verbatim>\<open>ws/lib/validation.js\<close>.\<close>

definition isValidStatusCode :: "nat \<Rightarrow> bool" where
  "isValidStatusCode code =
     ((1000 \<le> code \<and> code \<le> 1014 \<and> code \<noteq> 1004 \<and> code \<noteq> 1005 \<and> code \<noteq> 1006)
      \<or> (3000 \<le> code \<and> code \<le> 4999))"

text \<open>
  \<^verbatim>\<open>WebSocket.prototype.close(code, data)\<close> with a non-empty reason: nothing on a closed
  or closing socket; the handshake is aborted on a connecting one; an open socket starts
  closing, and the sender throws for an invalid code or a reason of more than 123 bytes
  (after the state has changed).
\<close>

definition ws_close :: "nat \<Rightarrow> string \<Rightarrow> socket \<Rightarrow> completion \<times> socket" where
  "ws_close code reason sock =
     (case readyState sock of
        CLOSED \<Rightarrow> (Normal, sock)
      | CONNECTING \<Rightarrow> (Normal, sock\<lparr>readyState := CLOSING\<rparr>)
      | CLOSING \<Rightarrow> (Normal, sock)
      | OPEN \<Rightarrow>
          (if isValidStatusCode code
           then (if 123 < length reason
                 then (Raised, sock\<lparr>readyState := CLOSING\<rparr>)
                 else (Normal, sock\<lparr>readyState := CLOSING\<rparr>))
           else (Raised, sock\<lparr>readyState := CLOSING\<rparr>)))"

text \<open>
  \<^verbatim>\<open>clients\<close> is a \<^verbatim>\<open>Set\<close> of socket objects: a list without repetition in insertion
  order, which is the order \<^verbatim>\<open>forEach\<close> visits. Sockets are named by numbers.
\<close>

definition set_add :: "nat \<Rightarrow> nat list \<Rightarrow> nat list" where
  "set_add ws cs = (if ws \<in> set cs then cs else cs @ [ws])"

definition set_delete :: "nat \<Rightarrow> nat list \<Rightarrow> nat list" where
  "set_delete ws cs = filter (\<lambda>c. c \<noteq> ws) cs"

text \<open>
  The broadcast loop of both servers:
  \<^verbatim>\<open>clients.forEach((client) => { if (client.readyState === WebSocket.OPEN) { client.send(m) } })\<close>.
  There is no \<^verbatim>\<open>try\<close> inside the loop, so a \<^verbatim>\<open>send\<close> that throws would end it.
\<close>

fun forEach_send :: "frame \<Rightarrow> nat list \<Rightarrow> (nat \<Rightarrow> socket) \<Rightarrow> completion \<times> (nat \<Rightarrow> socket)" where
  "forEach_send m [] h = (Normal, h)"
| "forEach_send m (c # cs) h =
     (if readyState (h c) = OPEN
      then (case ws_send m (h c) of
              None \<Rightarrow> (Raised, h)
            | Some sock \<Rightarrow> forEach_send m cs (h(c := sock)))
      else forEach_send m cs h)"

text \<open>
  The loop of the \<^verbatim>\<open>SIGINT\<close> handler:
  \<^verbatim>\<open>clients.forEach(client => { client.close(1000, 'Server shutting down') })\<close>. The
  result lists the sockets whose \<^verbatim>\<open>close\<close> returned.
\<close>

fun forEach_close :: "nat list \<Rightarrow> (nat \<Rightarrow> socket) \<Rightarrow> completion \<times> nat list \<times> (nat \<Rightarrow> socket)" where
  "forEach_close [] h = (Normal, [], h)"
| "forEach_close (c # cs) h =
     (case ws_close 1000 ''Server shutting down'' (h c) of
        (Raised, sock) \<Rightarrow> (Raised, [], h(c := sock))
      | (Normal, sock) \<Rightarrow>
          (case forEach_close cs (h(c := sock)) of (r, done, h') \<Rightarrow> (r, c # done, h')))"

subsection \<open>The state of the server process\<close>

text \<open>What the process does to the outside, in order: console lines and calls.\<close>

datatype effect =
    Log_client_connected
  | Log_client_disconnected
  | Log_websocket_error
  | Log_received_message jsval
  | Log_update_saved_and_broadcast jsval jsval jsval
  | Log_error_processing_message
  | Log_mongodb_connection_error
  | Log_connecting_to_mongodb
  | Log_connected_to_mongodb
  | Log_error_updating_cell
  | Log_mongodb_connection_closed
  | Log_sent_update string string jsval
  | Log_shutting_down
  | Log_websocket_server_closed
  | Log_http_server_closed
  | Call_client_close nat nat string
  | Call_wss_close
  | Call_mongo_close
  | Call_server_close
  | Call_process_exit nat
  | Uncaught

text \<open>
  The \<^verbatim>\<open>await\<close> at which a call of \<^verbatim>\<open>updateCell\<close> is suspended: inside
  \<^verbatim>\<open>connectToDatabase\<close> (\<^verbatim>\<open>client.connect()\<close>, then the two \<^verbatim>\<open>createIndex\<close> calls), or at
  \<^verbatim>\<open>collection.updateOne\<close>.
\<close>

datatype connect_phase = Connect | Index_row_id | Index_timestamp

datatype phase = Connecting connect_phase | UpdateOne

text \<open>
  \<open>clients\<close>, \<open>sockets\<close>: the registry and the socket objects.
  \<open>inflight\<close>: the \<^verbatim>\<open>message\<close> handlers suspended in \<^verbatim>\<open>await updateCell(...)\<close>, each with
  the socket of its closure, the \<^verbatim>\<open>await\<close> it waits at and the three arguments of the call.
  \<open>MONGODB_URI\<close> (whether the variable is set), \<open>client\<close>, \<open>collection\<close> (whether the
  module variables are non-null): the state of \<^verbatim>\<open>db.js\<close>.
  \<open>store_up\<close>, \<open>close_rejects\<close>, \<open>row_ids\<close>, \<open>writes\<close>: the store behind the driver:
  whether its calls resolve, whether \<^verbatim>\<open>client.close()\<close> rejects, the \<^verbatim>\<open>row_id\<close> of each
  document, and the updates applied so far as (row, column, value), oldest first.
  \<open>wss_closing\<close>, \<open>server_closing\<close>: \<^verbatim>\<open>wss.close(cb)\<close>, \<^verbatim>\<open>server.close(cb)\<close> was called
  and its callback is due. \<open>exit_code\<close>: set once the process has ended.
  The call \<^verbatim>\<open>initialize()\<close> made at start-up is taken to have settled: it leaves
  \<open>client\<close> and \<open>collection\<close> set when the store was reached, \<open>client\<close> alone when
  connecting failed, and neither without a URI.
\<close>

record relay =
  clients :: "nat list"
  sockets :: "nat \<Rightarrow> socket"
  inflight :: "(nat \<times> phase \<times> jsval \<times> jsval \<times> jsval) list"
  effects :: "effect list"
  exit_code :: "nat option"
  wss_closing :: bool
  server_closing :: bool
  MONGODB_URI :: bool
  client :: bool
  collection :: bool
  store_up :: bool
  close_rejects :: bool
  row_ids :: "jsval list"
  writes :: "(jsval \<times> jsval \<times> jsval) list"

definition say :: "effect \<Rightarrow> relay \<Rightarrow> relay" where
  "say e s = s\<lparr>effects := effects s @ [e]\<rparr>"

text \<open>
  An exception no handler catches, and a rejected promise of an \<^verbatim>\<open>async\<close> handler that
  nobody awaits, end the process with code 1 (the documented runtime is Node 18 or
  later).
\<close>

definition crash :: "relay \<Rightarrow> relay" where
  "crash s = (say Uncaught s)\<lparr>exit_code := Some 1\<rparr>"

subsection \<open>\<^verbatim>\<open>db.js\<close>\<close>

text \<open>Where an \<^verbatim>\<open>async\<close> function stands: at an \<^verbatim>\<open>await\<close>, returned, or thrown.\<close>

datatype ('p, 'a) progress = Waiting 'p | Returned 'a | Thrown

datatype 'a outcome = Resolved 'a | Rejected

text \<open>
  \<^verbatim>\<open>connectToDatabase\<close> from its call to its first \<^verbatim>\<open>await\<close> or its end: it throws
  without a URI; when \<^verbatim>\<open>client\<close> is still null it assigns the variable and awaits
  \<^verbatim>\<open>client.connect()\<close>; otherwise it returns the module's \<^verbatim>\<open>collection\<close>, null or not
  (the result says whether it is non-null). The \<^verbatim>\<open>catch\<close> logs and throws again.
\<close>

definition connectToDatabase :: "relay \<Rightarrow> (connect_phase, bool) progress \<times> relay" where
  "connectToDatabase s =
     (if \<not> MONGODB_URI s then (Thrown, say Log_mongodb_connection_error s)
      else if \<not> client s
      then (Waiting Connect, (say Log_connecting_to_mongodb s)\<lparr>client := True\<rparr>)
      else (Returned (collection s), s))"

text \<open>
  \<^verbatim>\<open>connectToDatabase\<close> from the \<^verbatim>\<open>await\<close> it is suspended at, when the driver answers:
  after \<^verbatim>\<open>client.connect()\<close> the variables \<^verbatim>\<open>db\<close> and \<^verbatim>\<open>collection\<close> are assigned and the
  first index is requested, then the second, then \<^verbatim>\<open>{ db, collection }\<close> is returned
  with the values the variables have by then.
\<close>

definition connectToDatabase_resume ::
  "connect_phase \<Rightarrow> relay \<Rightarrow> (connect_phase, bool) progress \<times> relay" where
  "connectToDatabase_resume p s =
     (if \<not> store_up s then (Thrown, say Log_mongodb_connection_error s)
      else (case p of
              Connect \<Rightarrow>
                (Waiting Index_row_id, (say Log_connected_to_mongodb s)\<lparr>collection := True\<rparr>)
            | Index_row_id \<Rightarrow> (Waiting Index_timestamp, s)
            | Index_timestamp \<Rightarrow> (Returned (collection s), s)))"

text \<open>
  \<^verbatim>\<open>updateCell\<close> between \<^verbatim>\<open>await connectToDatabase()\<close> and \<^verbatim>\<open>await collection.updateOne(...)\<close>:
  \<open>None\<close> when the call has thrown (the \<^verbatim>\<open>catch\<close> logs and throws again; calling
  \<^verbatim>\<open>updateOne\<close> on a null collection is a \<^verbatim>\<open>TypeError\<close>), otherwise the \<^verbatim>\<open>await\<close> the call
  is now suspended at.
\<close>

definition after_connectToDatabase ::
  "(connect_phase, bool) progress \<times> relay \<Rightarrow> phase option \<times> relay" where
  "after_connectToDatabase r =
     (case r of
        (Waiting p, s) \<Rightarrow> (Some (Connecting p), s)
      | (Thrown, s) \<Rightarrow> (None, say Log_error_updating_cell s)
      | (Returned coll, s) \<Rightarrow>
          if coll then (Some UpdateOne, s) else (None, say Log_error_updating_cell s))"

text \<open>\<^verbatim>\<open>updateCell(rowId, columnId, newValue)\<close> from its call to its first pending \<^verbatim>\<open>await\<close>.\<close>

definition updateCell :: "relay \<Rightarrow> phase option \<times> relay" where
  "updateCell s = after_connectToDatabase (connectToDatabase s)"

text \<open>
  \<^verbatim>\<open>updateCell\<close> from the answer to \<^verbatim>\<open>updateOne({ row_id: rowId }, update)\<close> to its end:
  \<^verbatim>\<open>result.modifiedCount > 0\<close>. The update sets a field and pushes to the history, so a
  matched document is a modified one. A rejection is logged and thrown again.
\<close>

definition updateOne_settled ::
  "jsval \<Rightarrow> jsval \<Rightarrow> jsval \<Rightarrow> relay \<Rightarrow> bool outcome \<times> relay" where
  "updateOne_settled rowId columnId newValue s =
     (if \<not> store_up s then (Rejected, say Log_error_updating_cell s)
      else if rowId \<in> set (row_ids s)
      then (Resolved True, s\<lparr>writes := writes s @ [(rowId, columnId, newValue)]\<rparr>)
      else (Resolved False, s))"

text \<open>\<^verbatim>\<open>closeConnection\<close>: closes the driver's client when there is one.\<close>

definition closeConnection :: "relay \<Rightarrow> completion \<times> relay" where
  "closeConnection s =
     (if client s
      then (let s1 = say Call_mongo_close s
            in if close_rejects s1 then (Raised, s1)
               else (Normal, say Log_mongodb_connection_closed
                               (s1\<lparr>client := False, collection := False\<rparr>)))
      else (Normal, s))"

subsection \<open>The handlers of \<^verbatim>\<open>websocket-server/server.js\<close>\<close>

definition connected_frame :: frame where
  "connected_frame =
     JSON_stringify [(''type'', JStr ''connected''),
                     (''message'', JStr ''Connected to WebSocket server'')]"

text \<open>
  \<^verbatim>\<open>wss.on("connection", (ws) => ...)\<close>: registers the socket and greets it. The
  \<^verbatim>\<open>send\<close> is not guarded.
\<close>

definition on_connection :: "nat \<Rightarrow> relay \<Rightarrow> relay" where
  "on_connection ws s =
     (let s1 = (say Log_client_connected s)\<lparr>clients := set_add ws (clients s)\<rparr>
      in case ws_send connected_frame (sockets s1 ws) of
           None \<Rightarrow> crash s1
         | Some sock \<Rightarrow> s1\<lparr>sockets := (sockets s1)(ws := sock)\<rparr>)"

text \<open>\<^verbatim>\<open>ws.on("close", ...)\<close> and \<^verbatim>\<open>ws.on("error", ...)\<close>.\<close>

definition on_close :: "nat \<Rightarrow> relay \<Rightarrow> relay" where
  "on_close ws s = (say Log_client_disconnected s)\<lparr>clients := set_delete ws (clients s)\<rparr>"

definition on_error :: "nat \<Rightarrow> relay \<Rightarrow> relay" where
  "on_error ws s = (say Log_websocket_error s)\<lparr>clients := set_delete ws (clients s)\<rparr>"

text \<open>
  \<^verbatim>\<open>ws.on("message", async (data) => ...)\<close> up to the first \<^verbatim>\<open>await\<close> that waits for the
  store. \<open>data\<close> is the result of \<^verbatim>\<open>JSON.parse(data.toString())\<close>, \<open>None\<close> when it throws.
  The whole body is inside \<^verbatim>\<open>try\<close>, and the \<^verbatim>\<open>catch\<close> logs.
\<close>

definition on_message :: "nat \<Rightarrow> jsval option \<Rightarrow> relay \<Rightarrow> relay" where
  "on_message ws data s =
     (case data of
        None \<Rightarrow> say Log_error_processing_message s
      | Some message \<Rightarrow>
          (let s1 = say (Log_received_message message) s
           in case get_prop message ''type'' of
                None \<Rightarrow> say Log_error_processing_message s1
              | Some t \<Rightarrow>
                  if t = JStr ''update''
                  then (case updateCell s1 of
                          (None, s2) \<Rightarrow> say Log_error_processing_message s2
                        | (Some p, s2) \<Rightarrow>
                            s2\<lparr>inflight := inflight s2 @
                                 [(ws, p, destructure message ''rowId'',
                                   destructure message ''columnId'',
                                   destructure message ''newValue'')]\<rparr>)
                  else s1))"

text \<open>
  The outbound message of the handler; \<open>now\<close> is \<^verbatim>\<open>new Date().toISOString()\<close>.
\<close>

definition broadcastMessage :: "jsval \<Rightarrow> jsval \<Rightarrow> jsval \<Rightarrow> string \<Rightarrow> frame" where
  "broadcastMessage rowId columnId newValue now =
     JSON_stringify [(''type'', JStr ''update''), (''rowId'', rowId), (''columnId'', columnId),
                     (''newValue'', newValue), (''timestamp'', JStr now)]"

text \<open>
  The rest of the \<^verbatim>\<open>message\<close> handler, from the moment the promise of \<^verbatim>\<open>updateCell\<close>
  settles with \<open>res\<close>: \<^verbatim>\<open>if (success) { ... broadcast ... }\<close>, all inside the \<^verbatim>\<open>try\<close>.
\<close>

definition after_updateCell ::
  "jsval \<Rightarrow> jsval \<Rightarrow> jsval \<Rightarrow> bool outcome \<Rightarrow> string \<Rightarrow> relay \<Rightarrow> relay" where
  "after_updateCell rowId columnId newValue res now s =
     (case res of
        Rejected \<Rightarrow> say Log_error_processing_message s
      | Resolved success \<Rightarrow>
          if success
          then (case forEach_send (broadcastMessage rowId columnId newValue now)
                       (clients s) (sockets s) of
                  (Raised, h) \<Rightarrow> say Log_error_processing_message (s\<lparr>sockets := h\<rparr>)
                | (Normal, h) \<Rightarrow>
                    say (Log_update_saved_and_broadcast rowId columnId newValue)
                        (s\<lparr>sockets := h\<rparr>))
          else s)"

text \<open>
  The store answers the \<open>k\<close>-th suspended handler, which runs on to its next \<^verbatim>\<open>await\<close> on
  the store or to its end. A handler the store never answers is never resumed.
\<close>

definition on_settled :: "nat \<Rightarrow> string \<Rightarrow> relay \<Rightarrow> relay" where
  "on_settled k now s =
     (if k < length (inflight s)
      then (case inflight s ! k of
              (ws, p, rowId, columnId, newValue) \<Rightarrow>
                (case p of
                   Connecting cp \<Rightarrow>
                     (case after_connectToDatabase (connectToDatabase_resume cp s) of
                        (Some p', s1) \<Rightarrow>
                          s1\<lparr>inflight := (inflight s1)[k := (ws, p', rowId, columnId, newValue)]\<rparr>
                      | (None, s1) \<Rightarrow>
                          say Log_error_processing_message
                            (s1\<lparr>inflight := take k (inflight s1) @ drop (Suc k) (inflight s1)\<rparr>))
                 | UpdateOne \<Rightarrow>
                     (case updateOne_settled rowId columnId newValue s of
                        (res, s1) \<Rightarrow>
                          after_updateCell rowId columnId newValue res now
                            (s1\<lparr>inflight := take k (inflight s1) @ drop (Suc k) (inflight s1)\<rparr>))))
      else s)"

text \<open>
  \<^verbatim>\<open>process.on("SIGINT", async () => ...)\<close>: closes every registered socket, then calls
  \<^verbatim>\<open>wss.close(cb)\<close>. Nothing is caught.
\<close>

definition on_SIGINT :: "relay \<Rightarrow> relay" where
  "on_SIGINT s =
     (let s1 = say Log_shutting_down s
      in case forEach_close (clients s1) (sockets s1) of
           (r, done, h) \<Rightarrow>
             (let s2 = s1\<lparr>sockets := h,
                          effects := effects s1 @
                            map (\<lambda>c. Call_client_close c 1000 ''Server shutting down'') done\<rparr>
              in case r of
                   Raised \<Rightarrow> crash s2
                 | Normal \<Rightarrow> (say Call_wss_close s2)\<lparr>wss_closing := True\<rparr>))"

text \<open>
  The callback of \<^verbatim>\<open>wss.close\<close>, an \<^verbatim>\<open>async\<close> function: \<^verbatim>\<open>await closeConnection()\<close>, then
  \<^verbatim>\<open>server.close(cb)\<close>.
\<close>

definition on_wss_closed :: "relay \<Rightarrow> relay" where
  "on_wss_closed s =
     (if wss_closing s
      then (let s1 = (say Log_websocket_server_closed s)\<lparr>wss_closing := False\<rparr>
            in case closeConnection s1 of
                 (Raised, s2) \<Rightarrow> crash s2
               | (Normal, s2) \<Rightarrow> (say Call_server_close s2)\<lparr>server_closing := True\<rparr>)
      else s)"

text \<open>The callback of \<^verbatim>\<open>server.close\<close>: \<^verbatim>\<open>process.exit(0)\<close>.\<close>

definition on_server_closed :: "relay \<Rightarrow> relay" where
  "on_server_closed s =
     (if server_closing s
      then (say (Call_process_exit 0) (say Log_http_server_closed s))
             \<lparr>server_closing := False, exit_code := Some 0\<rparr>
      else s)"

subsection \<open>The event loop\<close>

text \<open>
  One event is handled to its end (or to its \<^verbatim>\<open>await\<close>) before the next. \<open>Transport\<close>
  is the library changing the readiness of a socket between two events. A process that
  has ended handles nothing.
\<close>

datatype event =
    Connection nat
  | Close nat
  | Error nat
  | Message nat "jsval option"
  | Settled nat string
  | Transport nat ready_state
  | SIGINT
  | Wss_closed
  | Server_closed

definition step :: "event \<Rightarrow> relay \<Rightarrow> relay" where
  "step e s =
     (if exit_code s \<noteq> None then s
      else (case e of
              Connection ws \<Rightarrow> on_connection ws s
            | Close ws \<Rightarrow> on_close ws s
            | Error ws \<Rightarrow> on_error ws s
            | Message ws data \<Rightarrow> on_message ws data s
            | Settled k now \<Rightarrow> on_settled k now s
            | Transport ws rs \<Rightarrow>
                s\<lparr>sockets := (sockets s)(ws := (sockets s ws)\<lparr>readyState := rs\<rparr>)\<rparr>
            | SIGINT \<Rightarrow> on_SIGINT s
            | Wss_closed \<Rightarrow> on_wss_closed s
            | Server_closed \<Rightarrow> on_server_closed s))"

fun run :: "event list \<Rightarrow> relay \<Rightarrow> relay" where
  "run [] s = s"
| "run (e # es) s = run es (step e s)"

text \<open>
  The events by which the library reports that a connection has failed or ended, and
  the calls among the effects.
\<close>

definition connection_failure :: "event \<Rightarrow> bool" where
  "connection_failure e = (case e of Close ws \<Rightarrow> True | Error ws \<Rightarrow> True | _ \<Rightarrow> False)"

definition is_call :: "effect \<Rightarrow> bool" where
  "is_call e =
     (case e of
        Call_client_close c code reason \<Rightarrow> True
      | Call_wss_close \<Rightarrow> True
      | Call_mongo_close \<Rightarrow> True
      | Call_server_close \<Rightarrow> True
      | Call_process_exit n \<Rightarrow> True
      | _ \<Rightarrow> False)"

definition calls :: "effect list \<Rightarrow> effect list" where
  "calls es = filter is_call es"

text \<open>
  The members \<^verbatim>\<open>JSON.stringify\<close> prints for one property of an object literal: none
  when the value is \<^verbatim>\<open>undefined\<close>.
\<close>

definition member_text :: "string \<Rightarrow> jsval \<Rightarrow> frame" where
  "member_text k v = (if v = Undefined then [] else [(k, json_text v)])"

subsection \<open>The generator of \<^verbatim>\<open>scripts/websocket-server.js\<close>\<close>

text \<open>
  \<^verbatim>\<open>generateUpdateValue(columnId)\<close>, with the one \<^verbatim>\<open>Math.random()\<close> each branch draws as
  \<open>r\<close>, a double given by its exact value; each product is rounded to a double.
  \<open>columnId\<close> is \<open>None\<close> for \<^verbatim>\<open>undefined\<close>, on which \<^verbatim>\<open>columnId.includes\<close> throws
  (result \<open>None\<close>).
\<close>

definition generateUpdateValue :: "string option \<Rightarrow> rat \<Rightarrow> jsval option" where
  "generateUpdateValue columnId r =
     (if columnId = Some ''revenue'' \<or> columnId = Some ''expenses''
      then Some (JNum (of_int \<lfloor>fl (r * 1000000)\<rfloor>))
      else if columnId = Some ''profit''
      then Some (JNum (of_int \<lfloor>fl (r * 200000)\<rfloor>))
      else if columnId = Some ''employees''
      then Some (JNum (of_int (\<lfloor>fl (r * 1000)\<rfloor> + 10)))
      else if columnId = Some ''status''
      then Some (JStr (if r > 1 / 2 then ''Active'' else ''Inactive''))
      else if columnId = Some ''verified'' \<or> columnId = Some ''premium''
      then Some (JBool (r > 1 / 2))
      else if columnId = Some ''subscription_tier''
      then Some (case at_index [''Free'', ''Basic'', ''Pro'', ''Enterprise''] \<lfloor>fl (r * 4)\<rfloor> of
                   None \<Rightarrow> Undefined | Some t \<Rightarrow> JStr t)
      else if columnId = Some ''total_score'' \<or> columnId = Some ''risk_factor''
              \<or> columnId = Some ''satisfaction_score'' \<or> columnId = Some ''engagement_rate''
              \<or> columnId = Some ''conversion_rate''
      then Some (JStr (toFixed2 (fl (r * 100))))
      else (case columnId of
              None \<Rightarrow> None
            | Some c \<Rightarrow>
                if includes_str c ''performance_metric'' \<or> includes_str c ''kpi''
                then Some (JStr (toFixed2 (fl (r * 100))))
                else if includes_str c ''sales_metric'' \<or> includes_str c ''behavior_metric''
                then Some (JNum (of_int \<lfloor>fl (r * 10000)\<rfloor>))
                else Some (JNum (of_int \<lfloor>fl (r * 1000)\<rfloor>))))"

text \<open>
  The body of \<^verbatim>\<open>setInterval(() => { if (clients.size > 0) { ... } }, 2000)\<close>, with the
  three draws of \<^verbatim>\<open>Math.random()\<close> in the order the code makes them (doubles in [0, 1),
  given by their exact values). The callback catches nothing.
\<close>

definition tick :: "rat \<Rightarrow> rat \<Rightarrow> rat \<Rightarrow> relay \<Rightarrow> relay" where
  "tick r1 r2 r3 s =
     (if length (clients s) > 0
      then (let randomRowId = ''row_'' @ show_nat (nat \<lfloor>fl (r1 * 1000)\<rfloor>);
                randomColumnId =
                  at_index updateableColumns \<lfloor>fl (r2 * of_nat (length updateableColumns))\<rfloor>
            in case generateUpdateValue randomColumnId r3 of
                 None \<Rightarrow> crash s
               | Some randomValue \<Rightarrow>
                   (let message =
                          JSON_stringify
                            [(''type'', JStr ''update''), (''rowId'', JStr randomRowId),
                             (''columnId'', (case randomColumnId of
                                               None \<Rightarrow> Undefined | Some c \<Rightarrow> JStr c)),
                             (''newValue'', randomValue)]
                    in case forEach_send message (clients s) (sockets s) of
                         (Raised, h) \<Rightarrow> crash (s\<lparr>sockets := h\<rparr>)
                       | (Normal, h) \<Rightarrow>
                           say (Log_sent_update randomRowId
                                  (case randomColumnId of None \<Rightarrow> ''undefined'' | Some c \<Rightarrow> c)
                                  randomValue)
                               (s\<lparr>sockets := h\<rparr>)))
      else s)"

subsection \<open>Example states\<close>

text \<open>
  A socket as the library hands it to the \<^verbatim>\<open>connection\<close> handler, and a server with the
  given registry, a connected store holding the document \<^verbatim>\<open>row_42\<close>, and nothing pending.
\<close>

definition fresh_socket :: socket where
  "fresh_socket = \<lparr>readyState = OPEN, sent = []\<rparr>"

definition example_relay :: "nat list \<Rightarrow> relay" where
  "example_relay cs =
     \<lparr>clients = cs, sockets = (\<lambda>c. fresh_socket), inflight = [], effects = [],
      exit_code = None, wss_closing = False, server_closing = False,
      MONGODB_URI = True, client = True, collection = True, store_up = True,
      close_rejects = False, row_ids = [JStr ''row_42''], writes = []\<rparr>"

text \<open>The edit \<^verbatim>\<open>{type: "update", rowId: "row_42", columnId: "revenue", newValue: 500000}\<close>.\<close>

definition example_edit :: jsval where
  "example_edit =
     JObj [(''type'', JStr ''update''), (''rowId'', JStr ''row_42''),
           (''columnId'', JStr ''revenue''), (''newValue'', JNum 500000)]"

text \<open>
  A second edit of the same cell, an edit of a row the store does not hold, and a
  message of another type.
\<close>

definition example_edit2 :: jsval where
  "example_edit2 =
     JObj [(''type'', JStr ''update''), (''rowId'', JStr ''row_42''),
           (''columnId'', JStr ''revenue''), (''newValue'', JNum 700000)]"

definition example_edit_unknown_row :: jsval where
  "example_edit_unknown_row =
     JObj [(''type'', JStr ''update''), (''rowId'', JStr ''row_7''),
           (''columnId'', JStr ''revenue''), (''newValue'', JNum 1)]"

definition example_ping :: jsval where
  "example_ping = JObj [(''type'', JStr ''ping'')]"

text \<open>An update without \<^verbatim>\<open>newValue\<close>.\<close>

definition example_incomplete :: jsval where
  "example_incomplete =
     JObj [(''type'', JStr ''update''), (''rowId'', JStr ''row_42''),
           (''columnId'', JStr ''revenue'')]"

text \<open>
  Two connected clients have each sent an edit of the same cell, the first then the
  second, and both handlers wait for the store.
\<close>

definition example_two_pending :: relay where
  "example_two_pending =
     run [Message 0 (Some example_edit), Message 1 (Some example_edit2)] (example_relay [0, 1])"

section \<open>Properties\<close>

subsection \<open>The broadcast loop\<close>

text \<open>A \<^verbatim>\<open>send\<close> on an open socket returns, with the message handed over.\<close>

lemma ws_send_open:
  "readyState sock = OPEN \<Longrightarrow> ws_send m sock = Some (sock\<lparr>sent := sent sock @ [m]\<rparr>)"
  by (simp add: ws_send_def)

text \<open>
  Over a registry without repetition the loop ends normally and every open socket of
  the registry has the message appended, once; no other socket is touched.
\<close>

lemma forEach_send_normal:
  "distinct cs \<Longrightarrow>
   forEach_send m cs h =
     (Normal, \<lambda>x. if x \<in> set cs \<and> readyState (h x) = OPEN
                   then (h x)\<lparr>sent := sent (h x) @ [m]\<rparr> else h x)"
proof (induction cs arbitrary: h)
  case Nil
  then show ?case by simp
next
  case (Cons c cs)
  have d: "distinct cs" and notin: "c \<notin> set cs" using Cons.prems by auto
  show ?case
  proof (cases "readyState (h c) = OPEN")
    case True
    let ?h = "h(c := (h c)\<lparr>sent := sent (h c) @ [m]\<rparr>)"
    have "forEach_send m (c # cs) h = forEach_send m cs ?h"
      using True by (simp add: ws_send_open)
    also have "\<dots> = (Normal, \<lambda>x. if x \<in> set cs \<and> readyState (?h x) = OPEN
                   then (?h x)\<lparr>sent := sent (?h x) @ [m]\<rparr> else ?h x)"
      by (rule Cons.IH [OF d])
    also have "(\<lambda>x. if x \<in> set cs \<and> readyState (?h x) = OPEN
                   then (?h x)\<lparr>sent := sent (?h x) @ [m]\<rparr> else ?h x)
             = (\<lambda>x. if x \<in> set (c # cs) \<and> readyState (h x) = OPEN
                   then (h x)\<lparr>sent := sent (h x) @ [m]\<rparr> else h x)"
      using True notin by (auto simp: fun_eq_iff)
    finally show ?thesis .
  next
    case False
    have "forEach_send m (c # cs) h = forEach_send m cs h"
      using False by simp
    also have "\<dots> = (Normal, \<lambda>x. if x \<in> set cs \<and> readyState (h x) = OPEN
                   then (h x)\<lparr>sent := sent (h x) @ [m]\<rparr> else h x)"
      by (rule Cons.IH [OF d])
    also have "(\<lambda>x. if x \<in> set cs \<and> readyState (h x) = OPEN
                   then (h x)\<lparr>sent := sent (h x) @ [m]\<rparr> else h x)
             = (\<lambda>x. if x \<in> set (c # cs) \<and> readyState (h x) = OPEN
                   then (h x)\<lparr>sent := sent (h x) @ [m]\<rparr> else h x)"
      using False by (auto simp: fun_eq_iff)
    finally show ?thesis .
  qed
qed

text \<open>The guard on \<^verbatim>\<open>readyState\<close> keeps \<^verbatim>\<open>send\<close> from throwing, so the loop is never cut short.\<close>

lemma forEach_send_never_raises: "fst (forEach_send m cs h) = Normal"
  by (induction cs arbitrary: h) (auto simp: ws_send_def)

text \<open>Whatever the registry, the loop only appends copies of the message.\<close>

lemma forEach_send_sent:
  "\<exists>n. sent (snd (forEach_send m cs h) x) = sent (h x) @ replicate n m"
proof (induction cs arbitrary: h)
  case Nil
  have "sent (h x) = sent (h x) @ replicate 0 m" by simp
  then show ?case by (metis forEach_send.simps(1) snd_conv)
next
  case (Cons c cs)
  show ?case
  proof (cases "readyState (h c) = OPEN")
    case True
    let ?h = "h(c := (h c)\<lparr>sent := sent (h c) @ [m]\<rparr>)"
    have e: "forEach_send m (c # cs) h = forEach_send m cs ?h"
      using True by (simp add: ws_send_open)
    obtain n where n: "sent (snd (forEach_send m cs ?h) x) = sent (?h x) @ replicate n m"
      using Cons.IH by blast
    show ?thesis
    proof (cases "x = c")
      case True
      then have "sent (snd (forEach_send m (c # cs) h) x) = sent (h x) @ replicate (Suc n) m"
        using n e by (simp add: replicate_app_Cons_same)
      then show ?thesis by blast
    next
      case False
      then have "sent (snd (forEach_send m (c # cs) h) x) = sent (h x) @ replicate n m"
        using n e by simp
      then show ?thesis by blast
    qed
  next
    case False
    then show ?thesis using Cons.IH [of h] by simp
  qed
qed

subsection \<open>The suspended handler\<close>

lemma updateOne_settled_frame:
  "updateOne_settled r c v s = (res, s') \<Longrightarrow>
     clients s' = clients s \<and> sockets s' = sockets s \<and> inflight s' = inflight s
     \<and> exit_code s' = exit_code s \<and> wss_closing s' = wss_closing s
     \<and> server_closing s' = server_closing s"
  by (auto simp: updateOne_settled_def say_def split: if_splits)

lemma connect_resume_frame:
  "after_connectToDatabase (connectToDatabase_resume cp s) = (r, s') \<Longrightarrow>
     clients s' = clients s \<and> sockets s' = sockets s \<and> inflight s' = inflight s
     \<and> exit_code s' = exit_code s \<and> wss_closing s' = wss_closing s
     \<and> server_closing s' = server_closing s \<and> writes s' = writes s"
  by (auto simp: after_connectToDatabase_def connectToDatabase_resume_def say_def
           split: if_splits connect_phase.splits)

lemma updateCell_frame:
  "updateCell s = (r, s') \<Longrightarrow>
     clients s' = clients s \<and> sockets s' = sockets s \<and> inflight s' = inflight s
     \<and> exit_code s' = exit_code s \<and> wss_closing s' = wss_closing s
     \<and> server_closing s' = server_closing s \<and> writes s' = writes s
     \<and> row_ids s' = row_ids s"
  by (auto simp: updateCell_def after_connectToDatabase_def connectToDatabase_def say_def
           split: if_splits)

lemma after_updateCell_frame:
  "clients (after_updateCell r c v res now s) = clients s
   \<and> inflight (after_updateCell r c v res now s) = inflight s
   \<and> exit_code (after_updateCell r c v res now s) = exit_code s
   \<and> writes (after_updateCell r c v res now s) = writes s"
  by (auto simp: after_updateCell_def say_def split: outcome.splits prod.splits completion.splits)

lemma after_updateCell_sockets:
  "sockets (after_updateCell r c v res now s) =
     (if res = Resolved True
      then snd (forEach_send (broadcastMessage r c v now) (clients s) (sockets s))
      else sockets s)"
  by (auto simp: after_updateCell_def say_def split: outcome.splits prod.splits completion.splits)

text \<open>
  The sockets after the store has answered a suspended handler: a broadcast exactly
  when the answer is that of \<^verbatim>\<open>updateOne\<close> and reports a modification.
\<close>

lemma on_settled_sockets:
  assumes "k < length (inflight s)" and "inflight s ! k = (ws, p, r, c, v)"
  shows "sockets (on_settled k now s) =
     (if p = UpdateOne \<and> fst (updateOne_settled r c v s) = Resolved True
      then snd (forEach_send (broadcastMessage r c v now) (clients s) (sockets s))
      else sockets s)"
proof (cases p)
  case (Connecting cp)
  obtain q s1 where u: "after_connectToDatabase (connectToDatabase_resume cp s) = (q, s1)"
    by (cases "after_connectToDatabase (connectToDatabase_resume cp s)")
  from connect_resume_frame [OF u] show ?thesis using assms u Connecting
    by (cases q) (simp_all add: on_settled_def say_def)
next
  case UpdateOne
  obtain res s1 where u: "updateOne_settled r c v s = (res, s1)"
    by (cases "updateOne_settled r c v s")
  from updateOne_settled_frame [OF u] have f: "clients s1 = clients s" "sockets s1 = sockets s"
    by auto
  show ?thesis using assms u f UpdateOne
    by (simp add: on_settled_def after_updateCell_sockets)
qed

lemma on_settled_frame:
  "clients (on_settled k now s) = clients s \<and> exit_code (on_settled k now s) = exit_code s"
proof (cases "k < length (inflight s)")
  case True
  obtain ws p r c v where i: "inflight s ! k = (ws, p, r, c, v)"
    by (cases "inflight s ! k")
  show ?thesis
  proof (cases p)
    case (Connecting cp)
    obtain q s1 where u: "after_connectToDatabase (connectToDatabase_resume cp s) = (q, s1)"
      by (cases "after_connectToDatabase (connectToDatabase_resume cp s)")
    from connect_resume_frame [OF u] show ?thesis using True i u Connecting
      by (cases q) (simp_all add: on_settled_def say_def)
  next
    case UpdateOne
    obtain res s1 where u: "updateOne_settled r c v s = (res, s1)"
      by (cases "updateOne_settled r c v s")
    from updateOne_settled_frame [OF u] show ?thesis using True i u UpdateOne
      by (simp add: on_settled_def after_updateCell_frame)
  qed
next
  case False
  then show ?thesis by (simp add: on_settled_def)
qed

lemma on_settled_sent:
  "\<exists>ys. sent (sockets (on_settled k now s) x) = sent (sockets s x) @ ys"
proof (cases "k < length (inflight s)")
  case True
  obtain ws p r c v where i: "inflight s ! k = (ws, p, r, c, v)"
    by (cases "inflight s ! k")
  show ?thesis
    using on_settled_sockets [OF True i, of now]
      forEach_send_sent [of "broadcastMessage r c v now" "clients s" "sockets s" x]
    by (cases "p = UpdateOne \<and> fst (updateOne_settled r c v s) = Resolved True") auto
next
  case False
  then show ?thesis by (simp add: on_settled_def)
qed

lemma on_settled_delivery:
  assumes "k < length (inflight s)" and "inflight s ! k = (ws, p, r, c, v)"
    and "distinct (clients s)"
  shows "sent (sockets (on_settled k now s) x) =
           sent (sockets s x) @
           (if p = UpdateOne \<and> fst (updateOne_settled r c v s) = Resolved True
               \<and> x \<in> set (clients s) \<and> readyState (sockets s x) = OPEN
            then [broadcastMessage r c v now] else [])"
  by (simp add: on_settled_sockets [OF assms(1,2)] forEach_send_normal [OF assms(3)])

lemma on_message_frame:
  "sockets (on_message ws data s) = sockets s \<and> clients (on_message ws data s) = clients s
   \<and> exit_code (on_message ws data s) = exit_code s
   \<and> writes (on_message ws data s) = writes s
   \<and> row_ids (on_message ws data s) = row_ids s"
proof (cases data)
  case None
  then show ?thesis by (simp add: on_message_def say_def)
next
  case (Some message)
  let ?s1 = "say (Log_received_message message) s"
  obtain q s2 where u: "updateCell ?s1 = (q, s2)" by (cases "updateCell ?s1")
  from updateCell_frame [OF u] show ?thesis using Some u
    by (cases q; cases "get_prop message ''type''")
       (simp_all add: on_message_def say_def Let_def)
qed

subsection \<open>The closing loop and the shutdown callbacks\<close>

text \<open>With the arguments of the \<^verbatim>\<open>SIGINT\<close> handler \<^verbatim>\<open>close\<close> returns on every socket.\<close>

lemma ws_close_normal:
  "ws_close 1000 ''Server shutting down'' sock =
     (Normal, if readyState sock = OPEN \<or> readyState sock = CONNECTING
              then sock\<lparr>readyState := CLOSING\<rparr> else sock)"
  by (cases "readyState sock") (simp_all add: ws_close_def isValidStatusCode_def)

lemma forEach_close_normal:
  "\<exists>h'. forEach_close cs h = (Normal, cs, h') \<and> (\<forall>x. sent (h' x) = sent (h x))"
proof (induction cs arbitrary: h)
  case Nil
  then show ?case by simp
next
  case (Cons c cs)
  let ?sock = "if readyState (h c) = OPEN \<or> readyState (h c) = CONNECTING
              then (h c)\<lparr>readyState := CLOSING\<rparr> else h c"
  obtain h' where h': "forEach_close cs (h(c := ?sock)) = (Normal, cs, h')"
    "\<forall>x. sent (h' x) = sent ((h(c := ?sock)) x)"
    using Cons.IH by blast
  have "forEach_close (c # cs) h = (Normal, c # cs, h')"
    using h'(1) by (simp add: ws_close_normal)
  moreover have "\<forall>x. sent (h' x) = sent (h x)" using h'(2) by auto
  ultimately show ?case by blast
qed

lemma on_SIGINT_eq:
  "\<exists>h'. (\<forall>x. sent (h' x) = sent (sockets s x))
     \<and> on_SIGINT s =
         s\<lparr>sockets := h',
           effects := effects s @ [Log_shutting_down]
             @ map (\<lambda>c. Call_client_close c 1000 ''Server shutting down'') (clients s)
             @ [Call_wss_close],
           wss_closing := True\<rparr>"
proof -
  obtain h' where h': "forEach_close (clients s) (sockets s) = (Normal, clients s, h')"
    "\<forall>x. sent (h' x) = sent (sockets s x)"
    using forEach_close_normal by blast
  have "on_SIGINT s =
         s\<lparr>sockets := h',
           effects := effects s @ [Log_shutting_down]
             @ map (\<lambda>c. Call_client_close c 1000 ''Server shutting down'') (clients s)
             @ [Call_wss_close],
           wss_closing := True\<rparr>"
    using h'(1) by (simp add: on_SIGINT_def say_def Let_def)
  then show ?thesis using h'(2) by blast
qed

lemma on_SIGINT_clients: "clients (on_SIGINT s) = clients s"
proof -
  obtain h' where "on_SIGINT s =
         s\<lparr>sockets := h',
           effects := effects s @ [Log_shutting_down]
             @ map (\<lambda>c. Call_client_close c 1000 ''Server shutting down'') (clients s)
             @ [Call_wss_close],
           wss_closing := True\<rparr>"
    using on_SIGINT_eq by blast
  then show ?thesis by simp
qed

lemma closeConnection_frame:
  "closeConnection s = (r, s') \<Longrightarrow> sockets s' = sockets s \<and> clients s' = clients s"
  by (auto simp: closeConnection_def say_def Let_def split: if_splits)

lemma on_wss_closed_frame:
  "sockets (on_wss_closed s) = sockets s \<and> clients (on_wss_closed s) = clients s"
proof (cases "wss_closing s")
  case True
  let ?s1 = "(say Log_websocket_server_closed s)\<lparr>wss_closing := False\<rparr>"
  obtain r s2 where c: "closeConnection ?s1 = (r, s2)" by (cases "closeConnection ?s1")
  from closeConnection_frame [OF c] show ?thesis using True c
    by (cases r) (simp_all add: on_wss_closed_def say_def crash_def Let_def)
next
  case False
  then show ?thesis by (simp add: on_wss_closed_def)
qed

subsection \<open>Runs of the event loop\<close>

text \<open>No event takes a message back: what a socket was sent only grows.\<close>

lemma step_sent:
  "\<exists>ys. sent (sockets (step e s) x) = sent (sockets s x) @ ys"
proof (cases "exit_code s \<noteq> None")
  case True
  then show ?thesis by (simp add: step_def)
next
  case False
  show ?thesis
  proof (cases e)
    case (Connection ws)
    then show ?thesis using False
      by (auto simp: step_def on_connection_def ws_send_def crash_def say_def Let_def
               split: ready_state.splits)
  next
    case (Close ws)
    then show ?thesis using False by (simp add: step_def on_close_def say_def)
  next
    case (Error ws)
    then show ?thesis using False by (simp add: step_def on_error_def say_def)
  next
    case (Message ws data)
    then show ?thesis using False by (simp add: step_def on_message_frame)
  next
    case (Settled k now)
    then show ?thesis using False on_settled_sent by (simp add: step_def)
  next
    case (Transport ws rs)
    then show ?thesis using False by (simp add: step_def)
  next
    case SIGINT
    obtain h' where h': "\<forall>x. sent (h' x) = sent (sockets s x)"
      and eq: "on_SIGINT s =
         s\<lparr>sockets := h',
           effects := effects s @ [Log_shutting_down]
             @ map (\<lambda>c. Call_client_close c 1000 ''Server shutting down'') (clients s)
             @ [Call_wss_close],
           wss_closing := True\<rparr>"
      using on_SIGINT_eq [of s] by blast
    have "sockets (on_SIGINT s) = h'" by (simp add: eq)
    then show ?thesis using False SIGINT h' by (simp add: step_def)
  next
    case Wss_closed
    then show ?thesis using False by (simp add: step_def on_wss_closed_frame)
  next
    case Server_closed
    then show ?thesis using False by (simp add: step_def on_server_closed_def say_def)
  qed
qed

lemma run_sent:
  "\<exists>ys. sent (sockets (run es s) x) = sent (sockets s x) @ ys"
proof (induction es arbitrary: s)
  case Nil
  then show ?case by simp
next
  case (Cons e es)
  obtain ys where 1: "sent (sockets (step e s) x) = sent (sockets s x) @ ys"
    using step_sent by blast
  obtain zs where 2: "sent (sockets (run es (step e s)) x) = sent (sockets (step e s) x) @ zs"
    using Cons.IH by blast
  have "sent (sockets (run (e # es) s) x) = sent (sockets s x) @ (ys @ zs)"
    using 1 2 by simp
  then show ?case by blast
qed

text \<open>The registry stays a set.\<close>

lemma step_distinct:
  "distinct (clients s) \<Longrightarrow> distinct (clients (step e s))"
proof (cases e)
  case (Connection ws)
  assume "distinct (clients s)"
  then show ?thesis using Connection
    by (auto simp: step_def on_connection_def set_add_def crash_def say_def Let_def
             split: option.splits)
next
  case (Message ws data)
  assume "distinct (clients s)"
  then show ?thesis using Message by (simp add: step_def on_message_frame)
next
  case (Settled k now)
  assume "distinct (clients s)"
  then show ?thesis using Settled by (simp add: step_def on_settled_frame)
next
  case SIGINT
  assume "distinct (clients s)"
  then show ?thesis using SIGINT by (simp add: step_def on_SIGINT_clients)
next
  case Wss_closed
  assume "distinct (clients s)"
  then show ?thesis using Wss_closed by (simp add: step_def on_wss_closed_frame)
qed (auto simp: step_def on_close_def on_error_def set_delete_def say_def on_server_closed_def)

lemma run_distinct:
  "distinct (clients s) \<Longrightarrow> distinct (clients (run es s))"
  by (induction es arbitrary: s) (auto simp: step_distinct)






subsection \<open>Outbound messages\<close>

lemma json_text_Undefined: "(json_text v = Undefined) = (v = Undefined)"
  by (cases v) simp_all

text \<open>The members of the relayed message.\<close>

lemma broadcastMessage_members:
  "broadcastMessage r c v now =
     (''type'', JStr ''update'') # member_text ''rowId'' r @ member_text ''columnId'' c
       @ member_text ''newValue'' v @ [(''timestamp'', JStr now)]"
  by (simp add: broadcastMessage_def JSON_stringify_def member_text_def json_text_Undefined)

text \<open>A number beyond the range of a double is relayed as \<^verbatim>\<open>null\<close>.\<close>

lemma broadcastMessage_of_infinity:
  "broadcastMessage (JStr ''row_42'') (JStr ''revenue'') JInfinity now
     = [(''type'', JStr ''update''), (''rowId'', JStr ''row_42''),
        (''columnId'', JStr ''revenue''), (''newValue'', JNull), (''timestamp'', JStr now)]"
  by (simp add: broadcastMessage_def JSON_stringify_def)

lemma broadcastMessage_timestamp:
  "map_of (broadcastMessage r c v now) ''timestamp'' = Some (JStr now)"
  by (simp add: broadcastMessage_members member_text_def)

lemma map_of_JSON_stringify_absent:
  "k \<notin> fst ` set ms \<Longrightarrow> map_of (JSON_stringify ms) k = None"
  by (induction ms) (auto simp: JSON_stringify_def)

lemma tick_sockets:
  "\<exists>n ms. ''timestamp'' \<notin> fst ` set ms
        \<and> sent (sockets (tick r1 r2 r3 s) x) = sent (sockets s x) @ replicate n (JSON_stringify ms)"
proof (cases "clients s = [] \<or> generateUpdateValue
         (at_index updateableColumns \<lfloor>fl (r2 * of_nat (length updateableColumns))\<rfloor>) r3 = None")
  case True
  then have "sockets (tick r1 r2 r3 s) = sockets s"
    by (auto simp: tick_def crash_def say_def Let_def)
  then have "''timestamp'' \<notin> fst ` set ([] :: (string \<times> jsval) list)
      \<and> sent (sockets (tick r1 r2 r3 s) x) = sent (sockets s x) @ replicate 0 (JSON_stringify [])"
    by simp
  then show ?thesis by blast
next
  case False
  then obtain v where v: "generateUpdateValue
         (at_index updateableColumns \<lfloor>fl (r2 * of_nat (length updateableColumns))\<rfloor>) r3 = Some v"
    and ne: "clients s \<noteq> []" by auto
  let ?ms = "[(''type'', JStr ''update''),
              (''rowId'', JStr (''row_'' @ show_nat (nat \<lfloor>fl (r1 * 1000)\<rfloor>))),
              (''columnId'', (case at_index updateableColumns
                                     \<lfloor>fl (r2 * of_nat (length updateableColumns))\<rfloor> of
                                None \<Rightarrow> Undefined | Some c \<Rightarrow> JStr c)),
              (''newValue'', v)]"
  have "sockets (tick r1 r2 r3 s) = snd (forEach_send (JSON_stringify ?ms) (clients s) (sockets s))"
    using v ne
    by (auto simp: tick_def crash_def say_def Let_def split: prod.splits completion.splits)
  moreover obtain n where
    "sent (snd (forEach_send (JSON_stringify ?ms) (clients s) (sockets s)) x)
       = sent (sockets s x) @ replicate n (JSON_stringify ?ms)"
    using forEach_send_sent by blast
  moreover have "''timestamp'' \<notin> fst ` set ?ms" by simp
  ultimately show ?thesis by metis
qed

subsection \<open>The products of the generator\<close>

text \<open>
  The products are rounded as doubles. For the draws written \<^verbatim>\<open>0.118\<close>, \<^verbatim>\<open>0.04035\<close> and
  \<^verbatim>\<open>0.25806451612903225\<close> the code yields 128 employees, the score \<^verbatim>\<open>4.04\<close> and the
  column of index 24, where the exact products would give 127, \<^verbatim>\<open>4.03\<close> and index 23.
\<close>

lemma employees_at_0118:
  "generateUpdateValue (Some ''employees'') (fl (118 / 1000)) = Some (JNum 128)"
  by code_simp

lemma score_at_004035:
  "generateUpdateValue (Some ''total_score'') (fl (4035 / 100000)) = Some (JStr ''4.04'')"
  by code_simp

lemma column_at_024:
  "at_index updateableColumns \<lfloor>fl (fl (25806451612903225 / 10 ^ 17) * 93)\<rfloor> = Some ''kpi_3''"
  by code_simp

subsection \<open>Evaluation of the example states\<close>

lemmas ex_defs =
  step_def on_message_def on_settled_def on_connection_def on_close_def on_error_def
  after_updateCell_def updateCell_def after_connectToDatabase_def connectToDatabase_def
  connectToDatabase_resume_def updateOne_settled_def closeConnection_def
  on_SIGINT_def on_wss_closed_def on_server_closed_def
  broadcastMessage_def JSON_stringify_def connected_frame_def destructure_def member_text_def
  ws_send_def ws_close_def isValidStatusCode_def set_add_def set_delete_def say_def crash_def
  calls_def is_call_def connection_failure_def
  example_relay_def example_edit_def fresh_socket_def example_edit2_def
  example_edit_unknown_row_def example_ping_def example_incomplete_def example_two_pending_def

section \<open>The claims\<close>

subsection \<open>Persistence and broadcast\<close>

text \<open>
  C1 (as amended). The relay broadcasts an update only when the write of \<^verbatim>\<open>updateCell\<close>
  reported a modification. When the store answers a suspended handler, every
  registered open connection has the outbound message appended if the answer is that
  of \<^verbatim>\<open>updateOne\<close> and reports a modification, and no connection is sent anything
  otherwise (the write was rejected, matched no document, or the driver is still
  connecting). Before the answer nothing is sent either, so a write that never settles
  sends nothing.
\<close>

theorem broadcast_gated_on_write:
  assumes "k < length (inflight s)"
    and "inflight s ! k = (ws, p, rowId, columnId, newValue)"
    and "distinct (clients s)"
  shows "sent (sockets (on_settled k now s) x)
           = sent (sockets s x) @
             (if p = UpdateOne \<and> fst (updateOne_settled rowId columnId newValue s) = Resolved True
                 \<and> x \<in> set (clients s) \<and> readyState (sockets s x) = OPEN
              then [broadcastMessage rowId columnId newValue now] else [])
         \<and> sockets (on_message w data s) = sockets s"
  using on_settled_delivery [OF assms] on_message_frame by simp

text \<open>
  The theorem at the example edit: with the store answering, the second client
  receives the update; with the store down, it receives nothing.
\<close>

theorem broadcast_gated_on_write_witness:
  "sent (sockets (on_settled 0 ''2024-01-01T00:00:00.000Z''
                   (on_message 0 (Some example_edit) (example_relay [0, 1]))) 1)
     = [broadcastMessage (JStr ''row_42'') (JStr ''revenue'') (JNum 500000)
          ''2024-01-01T00:00:00.000Z'']
   \<and> sent (sockets (on_settled 0 ''2024-01-01T00:00:00.000Z''
                   (on_message 0 (Some example_edit)
                      ((example_relay [0, 1])\<lparr>store_up := False\<rparr>))) 1) = []"
proof -
  define a where "a = on_message 0 (Some example_edit) (example_relay [0, 1])"
  define b where "b = on_message 0 (Some example_edit) ((example_relay [0, 1])\<lparr>store_up := False\<rparr>)"
  have a: "0 < length (inflight a)"
    "inflight a ! 0 = (0, UpdateOne, JStr ''row_42'', JStr ''revenue'', JNum 500000)"
    "distinct (clients a)"
    by (simp_all add: a_def ex_defs)
  have b: "0 < length (inflight b)"
    "inflight b ! 0 = (0, UpdateOne, JStr ''row_42'', JStr ''revenue'', JNum 500000)"
    "distinct (clients b)"
    by (simp_all add: b_def ex_defs)
  have fa: "fst (updateOne_settled (JStr ''row_42'') (JStr ''revenue'') (JNum 500000) a) = Resolved True"
    "1 \<in> set (clients a)" "readyState (sockets a 1) = OPEN" "sent (sockets a 1) = []"
    by (simp_all add: a_def ex_defs)
  have fb: "fst (updateOne_settled (JStr ''row_42'') (JStr ''revenue'') (JNum 500000) b) = Rejected"
    "sent (sockets b 1) = []"
    by (simp_all add: b_def ex_defs)
  from broadcast_gated_on_write [OF a, where now = "''2024-01-01T00:00:00.000Z''" and x = 1]
       broadcast_gated_on_write [OF b, where now = "''2024-01-01T00:00:00.000Z''" and x = 1]
  have "sent (sockets (on_settled 0 ''2024-01-01T00:00:00.000Z'' a) 1)
     = [broadcastMessage (JStr ''row_42'') (JStr ''revenue'') (JNum 500000)
          ''2024-01-01T00:00:00.000Z'']
   \<and> sent (sockets (on_settled 0 ''2024-01-01T00:00:00.000Z'' b) 1) = []"
    using fa fb by simp
  then show ?thesis unfolding a_def b_def .
qed

text \<open>
  C1 as stated fails. Two clients are connected and open; the first sends the example
  edit. When the store is down the write is rejected, and when the store has no such row
  the write returns false: in both runs the second client is sent nothing.
\<close>

theorem persist_failure_blocks_broadcast:
  "1 \<in> set (clients (example_relay [0, 1]))
   \<and> readyState (sockets (example_relay [0, 1]) 1) = OPEN
   \<and> fst (updateOne_settled (JStr ''row_42'') (JStr ''revenue'') (JNum 500000)
            ((example_relay [0, 1])\<lparr>store_up := False\<rparr>)) = Rejected
   \<and> sent (sockets (run [Message 0 (Some example_edit), Settled 0 ''2024-01-01T00:00:00.000Z'']
                      ((example_relay [0, 1])\<lparr>store_up := False\<rparr>)) 1) = []
   \<and> fst (updateOne_settled (JStr ''row_42'') (JStr ''revenue'') (JNum 500000)
            ((example_relay [0, 1])\<lparr>row_ids := []\<rparr>)) = Resolved False
   \<and> sent (sockets (run [Message 0 (Some example_edit), Settled 0 ''2024-01-01T00:00:00.000Z'']
                      ((example_relay [0, 1])\<lparr>row_ids := []\<rparr>)) 1) = []"
  by (simp add: ex_defs)

subsection \<open>Fan-out\<close>

text \<open>
  C2 (as amended). For every update whose write reported a modification, and a registry
  of any size, every connection of the registry that is open is sent the same outbound
  message, appended once to what it was sent before; the originating connection is one
  of them when it is registered and open, and the registry is unchanged. The message
  has the members \<^verbatim>\<open>type\<close> (\<^verbatim>\<open>update\<close>), \<^verbatim>\<open>rowId\<close>, \<^verbatim>\<open>columnId\<close> and \<^verbatim>\<open>newValue\<close> with the
  values of the inbound message as \<^verbatim>\<open>JSON.stringify\<close> prints them (an absent one left out,
  an infinite number as \<^verbatim>\<open>null\<close>), and \<^verbatim>\<open>timestamp\<close> with the clock reading of the server.
\<close>

theorem fanout_complete:
  assumes "k < length (inflight s)"
    and "inflight s ! k = (ws, UpdateOne, rowId, columnId, newValue)"
    and "fst (updateOne_settled rowId columnId newValue s) = Resolved True"
    and "distinct (clients s)"
  shows "(\<forall>c\<in>set (clients s). readyState (sockets s c) = OPEN \<longrightarrow>
            sent (sockets (on_settled k now s) c)
              = sent (sockets s c) @ [broadcastMessage rowId columnId newValue now])
         \<and> (ws \<in> set (clients s) \<and> readyState (sockets s ws) = OPEN \<longrightarrow>
            sent (sockets (on_settled k now s) ws)
              = sent (sockets s ws) @ [broadcastMessage rowId columnId newValue now])
         \<and> clients (on_settled k now s) = clients s
         \<and> broadcastMessage rowId columnId newValue now
             = (''type'', JStr ''update'') # member_text ''rowId'' rowId
               @ member_text ''columnId'' columnId @ member_text ''newValue'' newValue
               @ [(''timestamp'', JStr now)]"
proof -
  have "\<And>x. sent (sockets (on_settled k now s) x)
           = sent (sockets s x) @
             (if x \<in> set (clients s) \<and> readyState (sockets s x) = OPEN
              then [broadcastMessage rowId columnId newValue now] else [])"
    using on_settled_delivery [OF assms(1,2,4)] assms(3) by simp
  then show ?thesis
    using broadcastMessage_members [of rowId columnId newValue now]
    by (simp add: on_settled_frame)
qed

text \<open>The theorem at the example edit sent by client 0: both clients receive it.\<close>

theorem fanout_complete_witness:
  "sent (sockets (on_settled 0 ''2024-01-01T00:00:00.000Z''
                   (on_message 0 (Some example_edit) (example_relay [0, 1]))) 0)
     = [[(''type'', JStr ''update''), (''rowId'', JStr ''row_42''),
         (''columnId'', JStr ''revenue''), (''newValue'', JNum 500000),
         (''timestamp'', JStr ''2024-01-01T00:00:00.000Z'')]]
   \<and> sent (sockets (on_settled 0 ''2024-01-01T00:00:00.000Z''
                   (on_message 0 (Some example_edit) (example_relay [0, 1]))) 1)
     = [[(''type'', JStr ''update''), (''rowId'', JStr ''row_42''),
         (''columnId'', JStr ''revenue''), (''newValue'', JNum 500000),
         (''timestamp'', JStr ''2024-01-01T00:00:00.000Z'')]]"
proof -
  define a where "a = on_message 0 (Some example_edit) (example_relay [0, 1])"
  have h: "0 < length (inflight a)"
    "inflight a ! 0 = (0, UpdateOne, JStr ''row_42'', JStr ''revenue'', JNum 500000)"
    "fst (updateOne_settled (JStr ''row_42'') (JStr ''revenue'') (JNum 500000) a) = Resolved True"
    "distinct (clients a)"
    by (simp_all add: a_def ex_defs)
  have c: "clients a = [0, 1]" "readyState (sockets a 0) = OPEN"
    "readyState (sockets a 1) = OPEN" "sent (sockets a 0) = []" "sent (sockets a 1) = []"
    by (simp_all add: a_def ex_defs)
  from fanout_complete [OF h, where now = "''2024-01-01T00:00:00.000Z''"]
  have "sent (sockets (on_settled 0 ''2024-01-01T00:00:00.000Z'' a) 0)
     = [[(''type'', JStr ''update''), (''rowId'', JStr ''row_42''),
         (''columnId'', JStr ''revenue''), (''newValue'', JNum 500000),
         (''timestamp'', JStr ''2024-01-01T00:00:00.000Z'')]]
   \<and> sent (sockets (on_settled 0 ''2024-01-01T00:00:00.000Z'' a) 1)
     = [[(''type'', JStr ''update''), (''rowId'', JStr ''row_42''),
         (''columnId'', JStr ''revenue''), (''newValue'', JNum 500000),
         (''timestamp'', JStr ''2024-01-01T00:00:00.000Z'')]]"
    using c by (simp add: member_text_def)
  then show ?thesis unfolding a_def .
qed

text \<open>
  C2 as stated fails. Three clients are connected and open; the second sends an edit of
  a row the store does not hold. The update is decoded and its write is issued, the
  write returns false, and none of the three, the originator included, is sent
  anything.
\<close>

theorem unsaved_update_reaches_no_connection:
  "clients (example_relay [0, 1, 2]) = [0, 1, 2]
   \<and> readyState (sockets (example_relay [0, 1, 2]) 0) = OPEN
   \<and> readyState (sockets (example_relay [0, 1, 2]) 1) = OPEN
   \<and> readyState (sockets (example_relay [0, 1, 2]) 2) = OPEN
   \<and> inflight (run [Message 1 (Some example_edit_unknown_row)] (example_relay [0, 1, 2]))
       = [(1, UpdateOne, JStr ''row_7'', JStr ''revenue'', JNum 1)]
   \<and> sent (sockets (run [Message 1 (Some example_edit_unknown_row),
                         Settled 0 ''2024-01-01T00:00:00.000Z''] (example_relay [0, 1, 2])) 0) = []
   \<and> sent (sockets (run [Message 1 (Some example_edit_unknown_row),
                         Settled 0 ''2024-01-01T00:00:00.000Z''] (example_relay [0, 1, 2])) 1) = []
   \<and> sent (sockets (run [Message 1 (Some example_edit_unknown_row),
                         Settled 0 ''2024-01-01T00:00:00.000Z''] (example_relay [0, 1, 2])) 2) = []"
  by (simp add: ex_defs)

subsection \<open>A send that fails\<close>

text \<open>
  C3. The library reports a failed write by the \<^verbatim>\<open>close\<close> or \<^verbatim>\<open>error\<close> event of the
  socket, not by an exception of \<^verbatim>\<open>send\<close>. So when the relay broadcasts an update and the
  send to connection K fails, every other registered open connection has the message
  (the loop is not cut short), and once the \<^verbatim>\<open>error\<close> or the \<^verbatim>\<open>close\<close> event of K is handled
  K is out of the registry, the others are still in it with what they were sent, and
  the process keeps running.
\<close>

theorem send_failure_isolated:
  assumes "k < length (inflight s)"
    and "inflight s ! k = (ws, UpdateOne, rowId, columnId, newValue)"
    and "fst (updateOne_settled rowId columnId newValue s) = Resolved True"
    and "distinct (clients s)"
  shows "(\<forall>x\<in>set (clients s). x \<noteq> K \<and> readyState (sockets s x) = OPEN \<longrightarrow>
            sent (sockets (on_error K (on_settled k now s)) x)
              = sent (sockets s x) @ [broadcastMessage rowId columnId newValue now]
          \<and> sent (sockets (on_close K (on_settled k now s)) x)
              = sent (sockets s x) @ [broadcastMessage rowId columnId newValue now]
          \<and> x \<in> set (clients (on_error K (on_settled k now s)))
          \<and> x \<in> set (clients (on_close K (on_settled k now s))))
         \<and> clients (on_error K (on_settled k now s)) = filter (\<lambda>c. c \<noteq> K) (clients s)
         \<and> clients (on_close K (on_settled k now s)) = filter (\<lambda>c. c \<noteq> K) (clients s)
         \<and> K \<notin> set (clients (on_error K (on_settled k now s)))
         \<and> K \<notin> set (clients (on_close K (on_settled k now s)))
         \<and> exit_code (on_error K (on_settled k now s)) = exit_code s
         \<and> exit_code (on_close K (on_settled k now s)) = exit_code s"
proof -
  have "\<And>x. sent (sockets (on_settled k now s) x)
           = sent (sockets s x) @
             (if x \<in> set (clients s) \<and> readyState (sockets s x) = OPEN
              then [broadcastMessage rowId columnId newValue now] else [])"
    using on_settled_delivery [OF assms(1,2,4)] assms(3) by simp
  then show ?thesis
    by (simp add: on_settled_frame on_error_def on_close_def set_delete_def say_def)
qed

text \<open>
  The theorem with three clients, the third sending the example edit and the second
  failing.
\<close>

theorem send_failure_isolated_witness:
  "sent (sockets (on_error 1 (on_settled 0 ''2024-01-01T00:00:00.000Z''
                   (on_message 2 (Some example_edit) (example_relay [0, 1, 2])))) 0)
     = [broadcastMessage (JStr ''row_42'') (JStr ''revenue'') (JNum 500000)
          ''2024-01-01T00:00:00.000Z'']
   \<and> sent (sockets (on_error 1 (on_settled 0 ''2024-01-01T00:00:00.000Z''
                   (on_message 2 (Some example_edit) (example_relay [0, 1, 2])))) 2)
     = [broadcastMessage (JStr ''row_42'') (JStr ''revenue'') (JNum 500000)
          ''2024-01-01T00:00:00.000Z'']
   \<and> clients (on_error 1 (on_settled 0 ''2024-01-01T00:00:00.000Z''
                   (on_message 2 (Some example_edit) (example_relay [0, 1, 2])))) = [0, 2]
   \<and> clients (on_close 1 (on_settled 0 ''2024-01-01T00:00:00.000Z''
                   (on_message 2 (Some example_edit) (example_relay [0, 1, 2])))) = [0, 2]"
proof -
  define a where "a = on_message 2 (Some example_edit) (example_relay [0, 1, 2])"
  have h: "0 < length (inflight a)"
    "inflight a ! 0 = (2, UpdateOne, JStr ''row_42'', JStr ''revenue'', JNum 500000)"
    "fst (updateOne_settled (JStr ''row_42'') (JStr ''revenue'') (JNum 500000) a) = Resolved True"
    "distinct (clients a)"
    by (simp_all add: a_def ex_defs)
  have c: "clients a = [0, 1, 2]" "readyState (sockets a 0) = OPEN"
    "readyState (sockets a 2) = OPEN" "sent (sockets a 0) = []" "sent (sockets a 2) = []"
    by (simp_all add: a_def ex_defs)
  from send_failure_isolated [OF h, where now = "''2024-01-01T00:00:00.000Z''" and K = 1]
  have "sent (sockets (on_error 1 (on_settled 0 ''2024-01-01T00:00:00.000Z'' a)) 0)
     = [broadcastMessage (JStr ''row_42'') (JStr ''revenue'') (JNum 500000)
          ''2024-01-01T00:00:00.000Z'']
   \<and> sent (sockets (on_error 1 (on_settled 0 ''2024-01-01T00:00:00.000Z'' a)) 2)
     = [broadcastMessage (JStr ''row_42'') (JStr ''revenue'') (JNum 500000)
          ''2024-01-01T00:00:00.000Z'']
   \<and> clients (on_error 1 (on_settled 0 ''2024-01-01T00:00:00.000Z'' a)) = [0, 2]
   \<and> clients (on_close 1 (on_settled 0 ''2024-01-01T00:00:00.000Z'' a)) = [0, 2]"
    using c by simp
  then show ?thesis unfolding a_def .
qed

subsection \<open>Malformed payloads\<close>




subsection \<open>Timestamps\<close>

text \<open>
  C5 (as amended). Every outbound update relayed from a client edit carries a
  \<^verbatim>\<open>timestamp\<close> member holding the clock reading the server takes when it broadcasts;
  nothing of the client's message enters it. The updates of the periodic generator
  carry no \<^verbatim>\<open>timestamp\<close> member.
\<close>

theorem relayed_update_carries_server_timestamp:
  assumes "k < length (inflight s)"
    and "inflight s ! k = (ws, p, rowId, columnId, newValue)"
  shows "(\<exists>n. sent (sockets (on_settled k now s) x)
               = sent (sockets s x) @ replicate n (broadcastMessage rowId columnId newValue now))
         \<and> map_of (broadcastMessage rowId columnId newValue now) ''timestamp'' = Some (JStr now)
         \<and> (\<exists>n f. sent (sockets (tick r1 r2 r3 s) x) = sent (sockets s x) @ replicate n f
                 \<and> map_of f ''timestamp'' = None)"
proof -
  have a: "\<exists>n. sent (sockets (on_settled k now s) x)
               = sent (sockets s x) @ replicate n (broadcastMessage rowId columnId newValue now)"
  proof (cases "p = UpdateOne \<and> fst (updateOne_settled rowId columnId newValue s) = Resolved True")
    case True
    then show ?thesis
      using on_settled_sockets [OF assms] forEach_send_sent by simp
  next
    case False
    then have "sent (sockets (on_settled k now s) x)
               = sent (sockets s x) @ replicate 0 (broadcastMessage rowId columnId newValue now)"
      using on_settled_sockets [OF assms] by auto
    then show ?thesis by blast
  qed
  obtain n ms where ms: "''timestamp'' \<notin> fst ` set ms"
    "sent (sockets (tick r1 r2 r3 s) x) = sent (sockets s x) @ replicate n (JSON_stringify ms)"
    using tick_sockets by blast
  have c: "\<exists>n f. sent (sockets (tick r1 r2 r3 s) x) = sent (sockets s x) @ replicate n f
                 \<and> map_of f ''timestamp'' = None"
    using ms map_of_JSON_stringify_absent by blast
  show ?thesis using a c broadcastMessage_timestamp by simp
qed

text \<open>The theorem at the example edit.\<close>

theorem relayed_update_carries_server_timestamp_witness:
  "(\<exists>n. sent (sockets (on_settled 0 ''2024-01-01T00:00:00.000Z''
                        (on_message 0 (Some example_edit) (example_relay [0, 1]))) 1)
          = sent (sockets (on_message 0 (Some example_edit) (example_relay [0, 1])) 1)
            @ replicate n (broadcastMessage (JStr ''row_42'') (JStr ''revenue'') (JNum 500000)
                             ''2024-01-01T00:00:00.000Z''))
   \<and> map_of (broadcastMessage (JStr ''row_42'') (JStr ''revenue'') (JNum 500000)
               ''2024-01-01T00:00:00.000Z'') ''timestamp''
       = Some (JStr ''2024-01-01T00:00:00.000Z'')
   \<and> (\<exists>n f. sent (sockets (tick (1 / 2) 0 (1 / 2)
                            (on_message 0 (Some example_edit) (example_relay [0, 1]))) 1)
            = sent (sockets (on_message 0 (Some example_edit) (example_relay [0, 1])) 1)
              @ replicate n f
          \<and> map_of f ''timestamp'' = None)"
proof -
  let ?s = "on_message 0 (Some example_edit) (example_relay [0, 1])"
  have h: "0 < length (inflight ?s)"
    "inflight ?s ! 0 = (0, UpdateOne, JStr ''row_42'', JStr ''revenue'', JNum 500000)"
    by (simp_all add: ex_defs)
  show ?thesis by (rule relayed_update_carries_server_timestamp [OF h])
qed

text \<open>
  C5 as stated fails. The message the generator sends for the draws 1/2, 0, 1/2 has the
  members \<^verbatim>\<open>type\<close>, \<^verbatim>\<open>rowId\<close>, \<^verbatim>\<open>columnId\<close>, \<^verbatim>\<open>newValue\<close> and no \<^verbatim>\<open>timestamp\<close>.
\<close>

theorem synthetic_update_has_no_timestamp:
  "sent (sockets (tick (1 / 2) 0 (1 / 2) (example_relay [0])) 0)
     = [[(''type'', JStr ''update''), (''rowId'', JStr ''row_500''),
         (''columnId'', JStr ''revenue''), (''newValue'', JNum 500000)]]"
  by code_simp

subsection \<open>Order of broadcasts\<close>

text \<open>
  C6 (as amended). Updates are broadcast in the order in which the store answers their
  writes, which need not be the order in which the relay received them; nothing is
  said about the order of the timestamps. For two updates of the same cell whose
  handlers the store answers one after the other, with any events in between, what a
  connection has been sent afterwards is: what it had been sent before; then the
  message of the first update, if its write reported a modification and the connection
  was registered and open at that moment; then what the events in between sent; then
  the message of the second update, under the same condition at its moment. So no
  connection is sent the second message before the first, and a connection that is
  registered and open when the second write reports a modification has the second value
  as the last message sent to it.
\<close>

theorem broadcast_order_is_settle_order:
  assumes "distinct (clients s0)"
    and "k1 < length (inflight s0)"
    and "inflight s0 ! k1 = (w1, p1, rowId, columnId, v1)"
    and "s1 = on_settled k1 t1 s0"
    and "s2 = run evs s1"
    and "k2 < length (inflight s2)"
    and "inflight s2 ! k2 = (w2, p2, rowId, columnId, v2)"
    and "s3 = on_settled k2 t2 s2"
  shows "(\<exists>mid.
            sent (sockets s1 x)
              = sent (sockets s0 x) @
                (if p1 = UpdateOne \<and> fst (updateOne_settled rowId columnId v1 s0) = Resolved True
                    \<and> x \<in> set (clients s0) \<and> readyState (sockets s0 x) = OPEN
                 then [broadcastMessage rowId columnId v1 t1] else [])
          \<and> sent (sockets s2 x) = sent (sockets s1 x) @ mid
          \<and> sent (sockets s3 x)
              = sent (sockets s0 x) @
                (if p1 = UpdateOne \<and> fst (updateOne_settled rowId columnId v1 s0) = Resolved True
                    \<and> x \<in> set (clients s0) \<and> readyState (sockets s0 x) = OPEN
                 then [broadcastMessage rowId columnId v1 t1] else [])
                @ mid @
                (if p2 = UpdateOne \<and> fst (updateOne_settled rowId columnId v2 s2) = Resolved True
                    \<and> x \<in> set (clients s2) \<and> readyState (sockets s2 x) = OPEN
                 then [broadcastMessage rowId columnId v2 t2] else []))
         \<and> (p2 = UpdateOne \<and> fst (updateOne_settled rowId columnId v2 s2) = Resolved True
              \<and> x \<in> set (clients s2) \<and> readyState (sockets s2 x) = OPEN
            \<longrightarrow> last (sent (sockets s3 x)) = broadcastMessage rowId columnId v2 t2)"
proof -
  have dist1: "distinct (clients s1)" using assms(1,4) by (simp add: on_settled_frame)
  have dist2: "distinct (clients s2)" using dist1 assms(5) by (simp add: run_distinct)
  note d1 = on_settled_delivery [OF assms(2,3,1), of t1 x]
  obtain mid where mid: "sent (sockets s2 x) = sent (sockets s1 x) @ mid"
    using run_sent assms(5) by blast
  note d2 = on_settled_delivery [OF assms(6,7) dist2, of t2 x]
  have a: "sent (sockets s1 x)
              = sent (sockets s0 x) @
                (if p1 = UpdateOne \<and> fst (updateOne_settled rowId columnId v1 s0) = Resolved True
                    \<and> x \<in> set (clients s0) \<and> readyState (sockets s0 x) = OPEN
                 then [broadcastMessage rowId columnId v1 t1] else [])"
    using d1 assms(4) by simp
  have c: "sent (sockets s3 x)
              = sent (sockets s0 x) @
                (if p1 = UpdateOne \<and> fst (updateOne_settled rowId columnId v1 s0) = Resolved True
                    \<and> x \<in> set (clients s0) \<and> readyState (sockets s0 x) = OPEN
                 then [broadcastMessage rowId columnId v1 t1] else [])
                @ mid @
                (if p2 = UpdateOne \<and> fst (updateOne_settled rowId columnId v2 s2) = Resolved True
                    \<and> x \<in> set (clients s2) \<and> readyState (sockets s2 x) = OPEN
                 then [broadcastMessage rowId columnId v2 t2] else [])"
    using d2 assms(8) mid a by simp
  have l: "p2 = UpdateOne \<and> fst (updateOne_settled rowId columnId v2 s2) = Resolved True
              \<and> x \<in> set (clients s2) \<and> readyState (sockets s2 x) = OPEN
            \<longrightarrow> last (sent (sockets s3 x)) = broadcastMessage rowId columnId v2 t2"
    using d2 assms(8) by simp
  from a mid c l show ?thesis by blast
qed

text \<open>
  The theorem with two pending edits, answered in the order of their arrival, a third
  client connecting in between.
\<close>

theorem broadcast_order_is_settle_order_witness:
  "sent (sockets (on_settled 0 ''2024-01-01T00:00:02.000Z''
                    (run [Connection 2]
                       (on_settled 0 ''2024-01-01T00:00:01.000Z'' example_two_pending))) 1)
     = [broadcastMessage (JStr ''row_42'') (JStr ''revenue'') (JNum 500000)
          ''2024-01-01T00:00:01.000Z'',
        broadcastMessage (JStr ''row_42'') (JStr ''revenue'') (JNum 700000)
          ''2024-01-01T00:00:02.000Z'']
   \<and> last (sent (sockets (on_settled 0 ''2024-01-01T00:00:02.000Z''
                            (run [Connection 2]
                               (on_settled 0 ''2024-01-01T00:00:01.000Z'' example_two_pending))) 1))
     = broadcastMessage (JStr ''row_42'') (JStr ''revenue'') (JNum 700000)
         ''2024-01-01T00:00:02.000Z''"
proof -
  define s0 where "s0 = example_two_pending"
  define s1 where "s1 = on_settled 0 ''2024-01-01T00:00:01.000Z'' s0"
  define s2 where "s2 = run [Connection 2] s1"
  define s3 where "s3 = on_settled 0 ''2024-01-01T00:00:02.000Z'' s2"
  define f1 where "f1 = broadcastMessage (JStr ''row_42'') (JStr ''revenue'') (JNum 500000)
                          ''2024-01-01T00:00:01.000Z''"
  define f2 where "f2 = broadcastMessage (JStr ''row_42'') (JStr ''revenue'') (JNum 700000)
                          ''2024-01-01T00:00:02.000Z''"
  have h0: "distinct (clients s0)" "0 < length (inflight s0)"
    "inflight s0 ! 0 = (0, UpdateOne, JStr ''row_42'', JStr ''revenue'', JNum 500000)"
    by (simp_all add: s0_def ex_defs)
  have h2: "0 < length (inflight s2)"
    "inflight s2 ! 0 = (1, UpdateOne, JStr ''row_42'', JStr ''revenue'', JNum 700000)"
    by (simp_all add: s2_def s1_def s0_def ex_defs)
  have c0: "fst (updateOne_settled (JStr ''row_42'') (JStr ''revenue'') (JNum 500000) s0) = Resolved True"
    "1 \<in> set (clients s0)" "readyState (sockets s0 1) = OPEN" "sent (sockets s0 1) = []"
    by (simp_all add: s0_def ex_defs)
  have c2: "fst (updateOne_settled (JStr ''row_42'') (JStr ''revenue'') (JNum 700000) s2) = Resolved True"
    "1 \<in> set (clients s2)" "readyState (sockets s2 1) = OPEN"
    by (simp_all add: s2_def s1_def s0_def ex_defs)
  have m: "sent (sockets s2 1) = sent (sockets s1 1)"
    by (simp add: s2_def s1_def s0_def ex_defs)
  from broadcast_order_is_settle_order [OF h0 s1_def s2_def h2 s3_def, where x = 1]
  obtain mid where
    r: "sent (sockets s1 1) = sent (sockets s0 1) @ [f1]"
       "sent (sockets s2 1) = sent (sockets s1 1) @ mid"
       "sent (sockets s3 1) = sent (sockets s0 1) @ [f1] @ mid @ [f2]"
    and l: "last (sent (sockets s3 1)) = f2"
    using c0 c2 unfolding f1_def f2_def by auto
  from r(2) m have "mid = []" by simp
  with r(3) c0(4) l have "sent (sockets s3 1) = [f1, f2] \<and> last (sent (sockets s3 1)) = f2"
    by simp
  then show ?thesis unfolding s3_def s2_def s1_def s0_def f1_def f2_def .
qed

text \<open>
  C6 as stated fails for the order of arrival. The edit to 500000 arrives before the
  edit to 700000; the store answers the second write first. The first client is sent
  700000 first and 500000 last.
\<close>

theorem later_arrival_may_be_broadcast_first:
  "inflight example_two_pending
     = [(0, UpdateOne, JStr ''row_42'', JStr ''revenue'', JNum 500000),
        (1, UpdateOne, JStr ''row_42'', JStr ''revenue'', JNum 700000)]
   \<and> sent (sockets (run [Settled 1 ''2024-01-01T00:00:01.000Z'',
                         Settled 0 ''2024-01-01T00:00:02.000Z''] example_two_pending) 0)
     = [broadcastMessage (JStr ''row_42'') (JStr ''revenue'') (JNum 700000) ''2024-01-01T00:00:01.000Z'',
        broadcastMessage (JStr ''row_42'') (JStr ''revenue'') (JNum 500000) ''2024-01-01T00:00:02.000Z'']"
  by (simp add: ex_defs)

subsection \<open>The column list\<close>

text \<open>
  C7. The updateable columns are exactly the thirteen base names and the four families
  \<^verbatim>\<open>performance_metric_N\<close>, \<^verbatim>\<open>sales_metric_N\<close>, \<^verbatim>\<open>behavior_metric_N\<close>, \<^verbatim>\<open>kpi_N\<close> for
  N from 1 to 20: the list built by the code has 93 entries, none twice, and its members
  are those names and no others.
\<close>

theorem updateableColumns_exact:
  "length updateableColumns = 93 \<and> distinct updateableColumns
   \<and> set updateableColumns = recognized_columns"
  by code_simp

subsection \<open>Shutdown\<close>




subsection \<open>The generator without clients\<close>

text \<open>
  C9. A tick of the generator with an empty registry does nothing: no message is
  built or sent and the state is unchanged, whatever the random draws.
\<close>

theorem tick_idle_without_clients:
  "clients s = [] \<Longrightarrow> tick r1 r2 r3 s = s"
  by (simp add: tick_def)

text \<open>The theorem at a server without clients.\<close>

theorem tick_idle_without_clients_witness:
  "tick (1 / 2) 0 (1 / 2) (example_relay []) = example_relay []"
proof -
  have "clients (example_relay []) = []" by (simp add: example_relay_def)
  then show ?thesis by (rule tick_idle_without_clients)
qed

subsection \<open>Messages of another type\<close>

text \<open>
  C10. A decoded message whose \<^verbatim>\<open>type\<close> is not \<^verbatim>\<open>update\<close> is ignored: the handler
  starts no write, sends nothing to any connection (the sender included), and leaves
  the registry, the store and the pending handlers as they were.
\<close>

theorem non_update_message_ignored:
  assumes "get_prop message ''type'' \<noteq> Some (JStr ''update'')"
  shows "clients (on_message ws (Some message) s) = clients s
       \<and> sockets (on_message ws (Some message) s) = sockets s
       \<and> inflight (on_message ws (Some message) s) = inflight s
       \<and> writes (on_message ws (Some message) s) = writes s
       \<and> row_ids (on_message ws (Some message) s) = row_ids s
       \<and> exit_code (on_message ws (Some message) s) = exit_code s"
  using assms by (auto simp: on_message_def say_def Let_def split: option.splits)

text \<open>The theorem at a \<^verbatim>\<open>ping\<close> message.\<close>

theorem non_update_message_ignored_witness:
  "clients (on_message 0 (Some example_ping) (example_relay [0, 1])) = clients (example_relay [0, 1])
   \<and> sockets (on_message 0 (Some example_ping) (example_relay [0, 1])) = sockets (example_relay [0, 1])
   \<and> inflight (on_message 0 (Some example_ping) (example_relay [0, 1])) = inflight (example_relay [0, 1])
   \<and> writes (on_message 0 (Some example_ping) (example_relay [0, 1])) = writes (example_relay [0, 1])
   \<and> row_ids (on_message 0 (Some example_ping) (example_relay [0, 1])) = row_ids (example_relay [0, 1])
   \<and> exit_code (on_message 0 (Some example_ping) (example_relay [0, 1])) = exit_code (example_relay [0, 1])"
proof -
  have "get_prop example_ping ''type'' \<noteq> Some (JStr ''update'')"
    by (simp add: example_ping_def)
  then show ?thesis by (rule non_update_message_ignored)
qed

end
